theory Spec2Isabelle
  imports Complex_Main
begin

section \<open>The game client of \<open>game.js\<close>\<close>

text \<open>
  The class \<open>GameClient\<close> is embedded as a record of its fields together with one
  function per method; a method that mutates \<open>this\<close> takes the record and returns the
  updated one.

  Modelling decisions, each taken from the source:
  \<^item> JavaScript numbers (coordinates, sizes) are binary64 values, embedded in the real
    numbers. In the avatar pass (\<open>drawAvatar\<close>, \<open>drawUsernameLabel\<close>) whether an avatar
    is drawn depends on how a difference rounds, so every addition, subtraction and
    division there is followed by \<open>fl64\<close>, rounding to the nearest binary64 value.
    \<open>updateViewport\<close> and \<open>drawWorld\<close> compute over the reals: what is shown of them
    are order bounds against \<open>0\<close> and the integer sizes, which rounding to nearest keeps.
    \<open>canvas.width\<close> and \<open>canvas.height\<close> are unsigned in the DOM, hence \<open>nat\<close>.
  \<^item> A string that the source tests for truthiness (\<open>!player.avatar\<close>,
    \<open>player.facing || 'south'\<close>, \<open>!username\<close>, \<open>!frames[frameIndex]\<close>) is falsy exactly
    when it is empty; an absent JSON field and an empty one take the same branch
    everywhere, so both are the empty string here. Likewise an absent
    \<open>animationFrame\<close> is \<open>0\<close>.
  \<^item> A JavaScript \<open>Map\<close> is an association list in insertion order with distinct keys:
    \<open>set\<close> replaces in place or appends, \<open>delete\<close> removes, iteration follows the list.
  \<^item> Inbound messages are the protocol's message shapes (a datatype), so a handler
    reads only fields that exist; \<open>Object.entries\<close> of a JSON object is its list of
    entries in property order. The source has no \<open>throw\<close>; its only failures are
    the \<open>TypeError\<close>s of reading a field of \<open>undefined\<close>, which a message of
    these shapes never causes. Hence the handlers are total functions without an error
    result.
  \<^item> The calls made on the 2D context are logged in \<open>ctx\<close>, oldest first, and the
    messages passed to \<open>ws.send\<close> in \<open>ws\<close>. Assignments of drawing styles
    (\<open>fillStyle\<close>, \<open>font\<close>, ...) are not draw calls and are not logged.
  \<^item> \<open>drawAvatar\<close> draws from the \<open>onload\<close> handler of the image it creates. Image
    decoding is outside the program; the handler is taken to run once for each image
    created, and its calls are attributed to the \<open>drawAvatar\<close> call that created it.
\<close>

subsection \<open>Data\<close>

record player_record =
  player_id :: string
  username :: string
  player_x :: real
  player_y :: real
  facing :: string
  animationFrame :: int
  avatar :: string

record avatar_definition =
  avatar_name :: string
  frames :: "(string \<times> string list) list"

datatype draw_call =
    ClearRect real real real real
  | DrawImage9 string real real real real real real real real
  | DrawImage5 string real real real real
  | StrokeText string real real
  | FillText string real real

datatype client_message =
    JoinGame string
  | Move string
  | Stop

datatype server_message =
    JoinGameOk string "(string \<times> player_record) list" "(string \<times> avatar_definition) list"
  | JoinGameFailed string
  | PlayersMoved "(string \<times> player_record) list"
  | PlayerJoined player_record avatar_definition
  | PlayerLeft string
  | UnknownAction string

record game =
  worldImage :: "string option"
  worldWidth :: real
  worldHeight :: real
  connected :: bool
  myPlayerId :: "string option"
  myPlayer :: "player_record option"
  players :: "(string \<times> player_record) list"
  avatars :: "(string \<times> avatar_definition) list"
  keysPressed :: "string set"
  viewportX :: real
  viewportY :: real
  avatarSize :: real
  canvasWidth :: nat
  canvasHeight :: nat
  ctx :: "draw_call list"
  ws :: "client_message list"

subsection \<open>JavaScript \<open>Map\<close>, truthiness and array indexing\<close>

fun map_set :: "('k \<times> 'v) list \<Rightarrow> 'k \<Rightarrow> 'v \<Rightarrow> ('k \<times> 'v) list" where
  "map_set [] k v = [(k, v)]"
| "map_set ((k', v') # m) k v = (if k' = k then (k, v) # m else (k', v') # map_set m k v)"

fun map_get :: "('k \<times> 'v) list \<Rightarrow> 'k \<Rightarrow> 'v option" where
  "map_get [] k = None"
| "map_get ((k', v') # m) k = (if k' = k then Some v' else map_get m k)"

fun map_delete :: "('k \<times> 'v) list \<Rightarrow> 'k \<Rightarrow> ('k \<times> 'v) list" where
  "map_delete [] k = []"
| "map_delete ((k', v') # m) k = (if k' = k then map_delete m k else (k', v') # map_delete m k)"

definition or_string :: "string \<Rightarrow> string \<Rightarrow> string" where
  "or_string a b = (if a = [] then b else a)"

definition or_number :: "int \<Rightarrow> int \<Rightarrow> int" where
  "or_number a b = (if a = 0 then b else a)"

definition array_index :: "'a list \<Rightarrow> int \<Rightarrow> 'a option" where
  "array_index a i = (if 0 \<le> i \<and> i < int (length a) then Some (a ! nat i) else None)"

subsection \<open>Binary64 arithmetic\<close>

text \<open>
  \<open>rne\<close> rounds a real to the nearest integer, a tie to the even one. \<open>fl64\<close> rounds a
  real to the nearest binary64 value, a tie to the even significand: for
  \<open>2 ^ e \<le> \<bar>r\<bar> < 2 ^ (e + 1)\<close> the binary64 values are the multiples of \<open>2 ^ (e - 52)\<close>,
  and below \<open>2 ^ (- 1022)\<close> the multiples of \<open>2 ^ (- 1074)\<close>. Overflow to infinity, which
  needs a magnitude of \<open>2 ^ 1024\<close>, is not modelled.
\<close>

definition rne :: "real \<Rightarrow> int" where
  "rne r =
     (let f = \<lfloor>r\<rfloor>; d = r - of_int f
      in if d < 1 / 2 then f
         else if 1 / 2 < d then f + 1
         else if even f then f else f + 1)"

definition fl64 :: "real \<Rightarrow> real" where
  "fl64 r =
     (if r = 0 then 0
      else
        (let e = max \<lfloor>log 2 \<bar>r\<bar>\<rfloor> (- 1022);
             u = 2 powr of_int (e - 52)
         in of_int (rne (r / u)) * u))"

subsection \<open>Construction\<close>

definition movementKeys :: "string \<Rightarrow> string option" where
  "movementKeys key =
     (if key = ''ArrowUp'' then Some ''up''
      else if key = ''ArrowDown'' then Some ''down''
      else if key = ''ArrowLeft'' then Some ''left''
      else if key = ''ArrowRight'' then Some ''right''
      else None)"

definition constructor :: "nat \<Rightarrow> nat \<Rightarrow> game" where
  "constructor innerWidth innerHeight =
     \<lparr> worldImage = Some ''world.jpg'',
       worldWidth = 2048,
       worldHeight = 2048,
       connected = False,
       myPlayerId = None,
       myPlayer = None,
       players = [],
       avatars = [],
       keysPressed = {},
       viewportX = 0,
       viewportY = 0,
       avatarSize = 32,
       canvasWidth = innerWidth,
       canvasHeight = innerHeight,
       ctx = [],
       ws = [] \<rparr>"

subsection \<open>Rendering\<close>

definition updateViewport :: "game \<Rightarrow> game" where
  "updateViewport s =
     (case myPlayer s of
        None \<Rightarrow> s
      | Some p \<Rightarrow>
          let centerX = player_x p - real (canvasWidth s) / 2;
              centerY = player_y p - real (canvasHeight s) / 2
          in s\<lparr> viewportX := max 0 (min centerX (worldWidth s - real (canvasWidth s))),
                viewportY := max 0 (min centerY (worldHeight s - real (canvasHeight s))) \<rparr>)"

definition drawUsernameLabel :: "game \<Rightarrow> string \<Rightarrow> real \<Rightarrow> real \<Rightarrow> draw_call list" where
  "drawUsernameLabel s uname lx ly =
     (if uname = [] then []
      else [StrokeText uname lx (fl64 (fl64 (ly - fl64 (avatarSize s / 2)) - 5)),
            FillText uname lx (fl64 (fl64 (ly - fl64 (avatarSize s / 2)) - 5))])"

text \<open>The test of \<open>drawAvatar\<close> that skips an avatar that is not on screen.\<close>

definition culled :: "game \<Rightarrow> player_record \<Rightarrow> bool" where
  "culled s p =
     (let screenX = fl64 (player_x p - viewportX s);
          screenY = fl64 (player_y p - viewportY s)
      in screenX < - avatarSize s \<or>
         screenX > fl64 (real (canvasWidth s) + avatarSize s) \<or>
         screenY < - avatarSize s \<or>
         screenY > fl64 (real (canvasHeight s) + avatarSize s))"

definition drawAvatar :: "game \<Rightarrow> player_record \<Rightarrow> draw_call list" where
  "drawAvatar s p =
     (if avatar p = [] then []
      else
        (case map_get (avatars s) (avatar p) of
           None \<Rightarrow> []
         | Some avatarData \<Rightarrow>
             (let screenX = fl64 (player_x p - viewportX s);
                  screenY = fl64 (player_y p - viewportY s)
              in if culled s p then []
                 else
                   (let direction = or_string (facing p) ''south'';
                        frameIndex = or_number (animationFrame p) 0
                    in (case map_get (frames avatarData) direction of
                          None \<Rightarrow> []
                        | Some fs \<Rightarrow>
                            (case array_index fs frameIndex of
                               None \<Rightarrow> []
                             | Some src \<Rightarrow>
                                 (if src = [] then []
                                  else (DrawImage5 src
                                          (fl64 (screenX - fl64 (avatarSize s / 2)))
                                          (fl64 (screenY - fl64 (avatarSize s / 2)))
                                          (avatarSize s) (avatarSize s))
                                       # (drawUsernameLabel s (username p) screenX screenY))))))))"

definition drawAvatars :: "game \<Rightarrow> game" where
  "drawAvatars s = s\<lparr> ctx := ctx s @ concat (map (\<lambda>(playerId, player). drawAvatar s player) (players s)) \<rparr>"

text \<open>The source rectangle of the world image: \<open>(startX, startY, endX, endY)\<close>.\<close>

definition sourceRect :: "game \<Rightarrow> real \<times> real \<times> real \<times> real" where
  "sourceRect s =
     (max 0 (viewportX s), max 0 (viewportY s),
      min (worldWidth s) (viewportX s + real (canvasWidth s)),
      min (worldHeight s) (viewportY s + real (canvasHeight s)))"

definition drawWorld :: "game \<Rightarrow> game" where
  "drawWorld s =
     (case worldImage s of
        None \<Rightarrow> s
      | Some img \<Rightarrow>
          let s1 = s\<lparr> ctx := ctx s @ [ClearRect 0 0 (real (canvasWidth s)) (real (canvasHeight s))] \<rparr>;
              s2 = updateViewport s1
          in case sourceRect s2 of (startX, startY, endX, endY) \<Rightarrow>
               let sourceWidth = endX - startX;
                   sourceHeight = endY - startY;
                   s3 = s2\<lparr> ctx := ctx s2 @
                          [DrawImage9 img startX startY sourceWidth sourceHeight
                             0 0 sourceWidth sourceHeight] \<rparr>
               in drawAvatars s3)"

definition resize :: "game \<Rightarrow> nat \<Rightarrow> nat \<Rightarrow> game" where
  "resize s innerWidth innerHeight =
     drawWorld (s\<lparr> canvasWidth := innerWidth, canvasHeight := innerHeight \<rparr>)"

subsection \<open>Keyboard\<close>

definition startMovement :: "game \<Rightarrow> string \<Rightarrow> game" where
  "startMovement s direction =
     (if \<not> connected s then s else s\<lparr> ws := ws s @ [Move direction] \<rparr>)"

definition stopMovement :: "game \<Rightarrow> game" where
  "stopMovement s =
     (if \<not> connected s then s
      else if keysPressed s = {} then s\<lparr> ws := ws s @ [Stop] \<rparr>
      else s)"

definition keydown :: "game \<Rightarrow> string \<Rightarrow> game" where
  "keydown s key =
     (case movementKeys key of
        None \<Rightarrow> s
      | Some direction \<Rightarrow>
          if key \<in> keysPressed s then s
          else startMovement (s\<lparr> keysPressed := insert key (keysPressed s) \<rparr>) direction)"

definition keyup :: "game \<Rightarrow> string \<Rightarrow> game" where
  "keyup s key =
     (case movementKeys key of
        None \<Rightarrow> s
      | Some direction \<Rightarrow> stopMovement (s\<lparr> keysPressed := keysPressed s - {key} \<rparr>))"

text \<open>
  The document delivers \<open>keydown\<close> and \<open>keyup\<close> events one at a time, each carrying
  \<open>event.code\<close>; each handler runs to completion before the next event.
\<close>

datatype key_event = KeyDown string | KeyUp string

fun keyEvent :: "game \<Rightarrow> key_event \<Rightarrow> game" where
  "keyEvent s (KeyDown key) = keydown s key"
| "keyEvent s (KeyUp key) = keyup s key"

fun keyEvents :: "game \<Rightarrow> key_event list \<Rightarrow> game" where
  "keyEvents s [] = s"
| "keyEvents s (e # es) = keyEvents (keyEvent s e) es"

subsection \<open>Connection and inbound messages\<close>

definition joinGame :: "game \<Rightarrow> game" where
  "joinGame s = (if \<not> connected s then s else s\<lparr> ws := ws s @ [JoinGame ''jasleen''] \<rparr>)"

definition onopen :: "game \<Rightarrow> game" where
  "onopen s = joinGame (s\<lparr> connected := True \<rparr>)"

definition onclose :: "game \<Rightarrow> game" where
  "onclose s = s\<lparr> connected := False \<rparr>"

definition onerror :: "game \<Rightarrow> game" where
  "onerror s = s"

text \<open>
  The loop \<open>for (const [playerId, playerData] of Object.entries(message.players))\<close>, which
  \<open>handleJoinGameResponse\<close> and \<open>handlePlayersMoved\<close> both run.
\<close>

fun setPlayers :: "game \<Rightarrow> (string \<times> player_record) list \<Rightarrow> game" where
  "setPlayers s [] = s"
| "setPlayers s ((playerId, playerData) # entries) =
     (let s1 = s\<lparr> players := map_set (players s) playerId playerData \<rparr>;
          s2 = (if Some playerId = myPlayerId s1 then s1\<lparr> myPlayer := Some playerData \<rparr> else s1)
      in setPlayers s2 entries)"

fun setAvatars :: "game \<Rightarrow> (string \<times> avatar_definition) list \<Rightarrow> game" where
  "setAvatars s [] = s"
| "setAvatars s ((avatarName, avatarData) # entries) =
     setAvatars (s\<lparr> avatars := map_set (avatars s) avatarName avatarData \<rparr>) entries"

definition handleJoinGameResponse ::
  "game \<Rightarrow> string \<Rightarrow> (string \<times> player_record) list \<Rightarrow> (string \<times> avatar_definition) list \<Rightarrow> game" where
  "handleJoinGameResponse s playerId messagePlayers messageAvatars =
     drawWorld (setAvatars (setPlayers (s\<lparr> myPlayerId := Some playerId \<rparr>) messagePlayers)
                  messageAvatars)"

definition handlePlayersMoved :: "game \<Rightarrow> (string \<times> player_record) list \<Rightarrow> game" where
  "handlePlayersMoved s messagePlayers = drawWorld (setPlayers s messagePlayers)"

definition handlePlayerJoined :: "game \<Rightarrow> player_record \<Rightarrow> avatar_definition \<Rightarrow> game" where
  "handlePlayerJoined s player av =
     s\<lparr> players := map_set (players s) (player_id player) player,
        avatars := map_set (avatars s) (avatar_name av) av \<rparr>"

definition handlePlayerLeft :: "game \<Rightarrow> string \<Rightarrow> game" where
  "handlePlayerLeft s playerId = s\<lparr> players := map_delete (players s) playerId \<rparr>"

fun handleServerMessage :: "game \<Rightarrow> server_message \<Rightarrow> game" where
  "handleServerMessage s (JoinGameOk playerId messagePlayers messageAvatars) =
     handleJoinGameResponse s playerId messagePlayers messageAvatars"
| "handleServerMessage s (JoinGameFailed err) = s"
| "handleServerMessage s (PlayersMoved messagePlayers) = handlePlayersMoved s messagePlayers"
| "handleServerMessage s (PlayerJoined player av) = handlePlayerJoined s player av"
| "handleServerMessage s (PlayerLeft playerId) = handlePlayerLeft s playerId"
| "handleServerMessage s (UnknownAction action) = s"

subsection \<open>The culling rule in the specification's words\<close>

text \<open>
  The avatar's bounding box is the square of side \<open>avatarSize\<close> centred on a screen
  position; the canvas expanded by half the avatar size on every side is
  \<open>[- half, width + half] \<times> [- half, height + half]\<close>. The box lies fully outside that
  region when the two are separated along one axis. \<open>bbox_outside_at\<close> says so of the
  box at a given screen position, in exact arithmetic; \<open>spec_bbox_outside\<close> takes the
  screen position to be the world position minus the viewport origin.
\<close>

definition bbox_outside_at :: "game \<Rightarrow> real \<Rightarrow> real \<Rightarrow> bool" where
  "bbox_outside_at s screenX screenY =
     (let half = avatarSize s / 2
      in screenX + half < - half \<or> real (canvasWidth s) + half < screenX - half \<or>
         screenY + half < - half \<or> real (canvasHeight s) + half < screenY - half)"

definition spec_bbox_outside :: "game \<Rightarrow> player_record \<Rightarrow> bool" where
  "spec_bbox_outside s p =
     bbox_outside_at s (player_x p - viewportX s) (player_y p - viewportY s)"

subsection \<open>Example states\<close>

text \<open>
  A session on an 800 by 600 canvas that has joined as player \<open>A\<close> and knows one avatar;
  \<open>bob\<close> is a second player off screen, and \<open>carol\<close> a player on screen whose
  \<open>animationFrame\<close> is past the one frame of her facing direction.
\<close>

definition knight :: avatar_definition where
  "knight = \<lparr> avatar_name = ''knight'',
              frames = [(''south'', [''s0.png'', ''s1.png'']), (''north'', [''n0.png''])] \<rparr>"

definition alice :: player_record where
  "alice = \<lparr> player_id = ''A'', username = ''alice'', player_x = 100, player_y = 100,
             facing = ''south'', animationFrame = 1, avatar = ''knight'' \<rparr>"

definition bob :: player_record where
  "bob = \<lparr> player_id = ''B'', username = ''bob'', player_x = 900, player_y = 900,
           facing = ''north'', animationFrame = 0, avatar = ''knight'' \<rparr>"

definition carol :: player_record where
  "carol = \<lparr> player_id = ''C'', username = ''carol'', player_x = 200, player_y = 150,
             facing = ''north'', animationFrame = 1, avatar = ''knight'' \<rparr>"

definition joined :: game where
  "joined = (constructor 800 600)
     \<lparr> connected := True, myPlayerId := Some ''A'', myPlayer := Some alice,
       players := [(''A'', alice)], avatars := [(''knight'', knight)] \<rparr>"

text \<open>
  A session whose local player stands at \<open>x = 400 + 2 ^ (- 44)\<close>, so that the viewport
  origin is \<open>(2 ^ (- 44), 0)\<close>, and a player \<open>dora\<close> at \<open>x = 832 + 2 ^ (- 43)\<close>. All three
  numbers are binary64 values. The difference \<open>832 + 2 ^ (- 44)\<close> lies halfway between
  the neighbouring binary64 values \<open>832\<close> and \<open>832 + 2 ^ (- 43)\<close>.
\<close>

definition erin :: player_record where
  "erin = \<lparr> player_id = ''A'', username = ''erin'', player_x = 400 + 1 / 2 ^ 44, player_y = 300,
            facing = ''south'', animationFrame = 0, avatar = ''knight'' \<rparr>"

definition dora :: player_record where
  "dora = \<lparr> player_id = ''D'', username = ''dora'', player_x = 832 + 1 / 2 ^ 43, player_y = 300,
            facing = ''south'', animationFrame = 0, avatar = ''knight'' \<rparr>"

definition halfway :: game where
  "halfway = updateViewport
     (joined\<lparr> myPlayer := Some erin, players := [(''A'', erin), (''D'', dora)] \<rparr>)"

section \<open>Auxiliary facts\<close>

lemma rne_int: "rne (of_int n) = n"
  by (simp add: rne_def)

lemma fl64_in_binade:
  assumes "2 ^ n \<le> \<bar>r\<bar>" and "\<bar>r\<bar> < 2 ^ Suc n" and "n \<le> 52"
  shows "fl64 r = of_int (rne (r * 2 ^ (52 - n))) / 2 ^ (52 - n)"
proof -
  have "(0::real) < 2 ^ n" by simp
  with assms(1) have pos: "0 < \<bar>r\<bar>" by linarith
  then have nz: "r \<noteq> 0" by simp
  have "2 powr real_of_int (int n) \<le> \<bar>r\<bar> \<and> \<bar>r\<bar> < 2 powr real_of_int (int n + 1)"
    using assms(1,2) by (simp add: powr_realpow powr_add)
  then have e: "\<lfloor>log 2 \<bar>r\<bar>\<rfloor> = int n"
    using pos floor_log_eq_powr_iff [of "\<bar>r\<bar>" 2 "int n"] by simp
  have "real_of_int (int n - 52) = - real (52 - n)"
    using assms(3) by simp
  then have u: "2 powr real_of_int (int n - 52) = 1 / 2 ^ (52 - n)"
    by (simp only: powr_minus powr_realpow) (simp add: powr_realpow field_simps)
  have m: "max (int n) (- 1022) = int n" by simp
  show ?thesis
    unfolding fl64_def Let_def e m u using nz by simp
qed


lemma fl64_int:
  assumes "\<bar>n\<bar> < 2 ^ 53"
  shows "fl64 (of_int n) = of_int n"
proof (cases "n = 0")
  case True
  then show ?thesis by (simp add: fl64_def)
next
  case False
  then have "1 \<le> nat \<bar>n\<bar>" by simp
  then obtain k where k: "2 ^ k \<le> nat \<bar>n\<bar>" "nat \<bar>n\<bar> < 2 ^ (k + 1)"
    using ex_power_ivl1 [of 2 "nat \<bar>n\<bar>"] by auto
  have "int (2 ^ k) \<le> int (nat \<bar>n\<bar>)"
    using k(1) by (simp only: of_nat_le_iff)
  then have "(2::int) ^ k \<le> \<bar>n\<bar>" by simp
  with assms have "(2::int) ^ k < 2 ^ 53" by linarith
  then have "k < 53" by (simp only: power_strict_increasing_iff)
  then have k52: "k \<le> 52" by simp
  have "real (2 ^ k) \<le> real (nat \<bar>n\<bar>)"
    using k(1) by (simp only: of_nat_le_iff)
  then have lo: "2 ^ k \<le> \<bar>real_of_int n\<bar>" by simp
  have "real (nat \<bar>n\<bar>) < real (2 ^ (k + 1))"
    using k(2) by (simp only: of_nat_less_iff)
  then have hi: "\<bar>real_of_int n\<bar> < 2 ^ Suc k" by simp
  have "real_of_int n * 2 ^ (52 - k) = of_int (n * 2 ^ (52 - k))"
    by simp
  then have "rne (real_of_int n * 2 ^ (52 - k)) = n * 2 ^ (52 - k)"
    by (simp only: rne_int)
  then show ?thesis
    using fl64_in_binade [OF lo hi k52] by simp
qed

lemma fl64_numeral: "numeral k < (2::int) ^ 53 \<Longrightarrow> fl64 (numeral k) = numeral k"
  using fl64_int [of "numeral k"] by simp

lemma fl64_halfway: "fl64 (832 + 1 / 2 ^ 43 - 1 / 2 ^ 44) = 832"
proof -
  have "fl64 (832 + 1 / 2 ^ 43 - 1 / 2 ^ 44) =
          of_int (rne ((832 + 1 / 2 ^ 43 - 1 / 2 ^ 44) * 2 ^ (52 - 9))) / 2 ^ (52 - 9)"
    by (rule fl64_in_binade) simp_all
  also have "(832 + 1 / 2 ^ 43 - 1 / 2 ^ 44) * 2 ^ (52 - 9) = (14636698788954113 / 2 :: real)"
    by simp
  also have "rne (14636698788954113 / 2) = 7318349394477056"
    by (simp add: rne_def Let_def)
  finally show ?thesis by simp
qed

lemma map_get_map_set: "map_get (map_set m k v) k' = (if k' = k then Some v else map_get m k')"
  by (induction m) auto

lemma map_set_idem: "map_set (map_set m k v) k v = map_set m k v"
  by (induction m) auto

lemma updateViewport_frame:
  "players (updateViewport s) = players s"
  "avatars (updateViewport s) = avatars s"
  "ctx (updateViewport s) = ctx s"
  "myPlayer (updateViewport s) = myPlayer s"
  by (simp_all add: updateViewport_def Let_def split: option.split)

lemma setPlayers_absent:
  "k \<notin> fst ` set entries \<Longrightarrow> map_get (players (setPlayers s entries)) k = map_get (players s) k"
  by (induction s entries rule: setPlayers.induct) (auto simp: Let_def map_get_map_set)

lemma setPlayers_present:
  "(k, v) \<in> set entries \<Longrightarrow> distinct (map fst entries) \<Longrightarrow>
   map_get (players (setPlayers s entries)) k = Some v"
proof (induction s entries rule: setPlayers.induct)
  case (1 s)
  then show ?case by simp
next
  case (2 s playerId playerData entries)
  show ?case
  proof (cases "k = playerId")
    case True
    with 2 have "v = playerData" "k \<notin> fst ` set entries"
      by (auto simp: rev_image_eqI)
    then show ?thesis
      using True by (simp add: Let_def setPlayers_absent map_get_map_set)
  next
    case False
    with 2 show ?thesis by (auto simp: Let_def)
  qed
qed

lemma culled_bbox:
  assumes "avatarSize s = 32" and "canvasWidth s < 2 ^ 32" and "canvasHeight s < 2 ^ 32"
  shows "culled s p =
           bbox_outside_at s (fl64 (player_x p - viewportX s)) (fl64 (player_y p - viewportY s))"
proof -
  have "\<bar>int (canvasWidth s) + 32\<bar> < 2 ^ 53" and "\<bar>int (canvasHeight s) + 32\<bar> < 2 ^ 53"
    using assms(2,3) by simp_all
  from this [THEN fl64_int]
  have "fl64 (real (canvasWidth s) + 32) = real (canvasWidth s) + 32"
    and "fl64 (real (canvasHeight s) + 32) = real (canvasHeight s) + 32"
    by simp_all
  then show ?thesis
    using assms(1) by (simp add: culled_def bbox_outside_at_def Let_def) argo
qed

lemma clamp_source:
  fixes W c cx :: real
  assumes "0 \<le> W" and "0 \<le> c"
  shows "0 \<le> max 0 (max 0 (min cx (W - c)))"
    and "max 0 (max 0 (min cx (W - c))) \<le> min W (max 0 (min cx (W - c)) + c)"
    and "min W (max 0 (min cx (W - c)) + c) \<le> W"
  using assms by (auto simp: max_def min_def)

lemma updateViewport_ctx_update:
  "updateViewport (s\<lparr>ctx := c\<rparr>) = (updateViewport s)\<lparr>ctx := c\<rparr>"
  by (simp add: updateViewport_def Let_def split: option.split)

lemma sourceRect_ctx_update: "sourceRect (s\<lparr>ctx := c\<rparr>) = sourceRect s"
  by (simp add: sourceRect_def)

lemma culled_ctx_update: "culled (s\<lparr>ctx := c\<rparr>) p = culled s p"
  by (simp add: culled_def)

lemma drawUsernameLabel_ctx_update:
  "drawUsernameLabel (s\<lparr>ctx := c\<rparr>) u lx ly = drawUsernameLabel s u lx ly"
  by (simp add: drawUsernameLabel_def)

lemma drawAvatar_ctx_update: "drawAvatar (s\<lparr>ctx := c\<rparr>) p = drawAvatar s p"
  by (simp add: drawAvatar_def culled_ctx_update drawUsernameLabel_ctx_update Let_def
      split: option.split)

lemma drawWorld_calls:
  assumes "worldImage s = Some img"
    and "sourceRect (updateViewport s) = (startX, startY, endX, endY)"
  shows "ctx (drawWorld s) =
           ctx s @ ClearRect 0 0 (real (canvasWidth s)) (real (canvasHeight s))
             # DrawImage9 img startX startY (endX - startX) (endY - startY)
                 0 0 (endX - startX) (endY - startY)
             # concat (map (\<lambda>(playerId, player). drawAvatar (updateViewport s) player) (players s))"
proof -
  let ?s1 = "s\<lparr> ctx := ctx s @ [ClearRect 0 0 (real (canvasWidth s)) (real (canvasHeight s))] \<rparr>"
  let ?s3 = "(updateViewport ?s1)\<lparr> ctx := ctx (updateViewport ?s1) @
               [DrawImage9 img startX startY (endX - startX) (endY - startY)
                  0 0 (endX - startX) (endY - startY)] \<rparr>"
  have "sourceRect (updateViewport ?s1) = (startX, startY, endX, endY)"
    using assms(2) by (simp add: updateViewport_ctx_update sourceRect_ctx_update)
  then have "drawWorld s = drawAvatars ?s3"
    using assms(1) by (simp add: drawWorld_def Let_def)
  then show ?thesis
    by (simp add: drawAvatars_def updateViewport_frame updateViewport_ctx_update
        drawAvatar_ctx_update)
qed

lemma drawWorld_frame:
  "players (drawWorld s) = players s"
  "myPlayer (drawWorld s) = myPlayer s"
proof -
  have "players (drawWorld s) = players s \<and> myPlayer (drawWorld s) = myPlayer s"
  proof (cases "worldImage s")
    case None
    then show ?thesis by (simp add: drawWorld_def)
  next
    case (Some img)
    obtain startX startY endX endY where
      "sourceRect (updateViewport (s\<lparr> ctx := ctx s @
         [ClearRect 0 0 (real (canvasWidth s)) (real (canvasHeight s))] \<rparr>))
       = (startX, startY, endX, endY)"
      by (metis prod_cases4)
    with Some show ?thesis
      by (simp add: drawWorld_def Let_def drawAvatars_def updateViewport_frame)
  qed
  then show "players (drawWorld s) = players s" "myPlayer (drawWorld s) = myPlayer s"
    by simp_all
qed

lemma keyEvent_sent:
  "\<exists>new. ws (keyEvent s e) = ws s @ new \<and> (Stop \<in> set new \<longrightarrow> keysPressed (keyEvent s e) = {})"
  by (cases e)
    (auto simp: keyup_def keydown_def stopMovement_def startMovement_def split: option.splits)

lemma keyEvent_held:
  "k \<in> keysPressed s \<Longrightarrow> e \<noteq> KeyUp k \<Longrightarrow> k \<in> keysPressed (keyEvent s e)"
  by (cases e)
    (auto simp: keyup_def keydown_def stopMovement_def startMovement_def split: option.splits)

lemma keyEvents_held:
  "k \<in> keysPressed s \<Longrightarrow> KeyUp k \<notin> set es \<Longrightarrow>
   \<exists>new. ws (keyEvents s es) = ws s @ new \<and> Stop \<notin> set new \<and> k \<in> keysPressed (keyEvents s es)"
proof (induction es arbitrary: s)
  case Nil
  then show ?case by simp
next
  case (Cons e es)
  from Cons.prems have "e \<noteq> KeyUp k"
    by auto
  with Cons.prems have held: "k \<in> keysPressed (keyEvent s e)"
    by (simp add: keyEvent_held)
  obtain new1 where new1: "ws (keyEvent s e) = ws s @ new1"
    "Stop \<in> set new1 \<longrightarrow> keysPressed (keyEvent s e) = {}"
    using keyEvent_sent by blast
  from held new1(2) have "Stop \<notin> set new1" by auto
  moreover from Cons.IH [OF held] Cons.prems(2) obtain new2 where
    "ws (keyEvents (keyEvent s e) es) = ws (keyEvent s e) @ new2" "Stop \<notin> set new2"
    "k \<in> keysPressed (keyEvents (keyEvent s e) es)"
    by auto
  ultimately show ?case
    using new1(1) by simp
qed

lemma keydown_held: "movementKeys k = Some d \<Longrightarrow> k \<in> keysPressed (keydown s k)"
  by (simp add: keydown_def startMovement_def)

section \<open>Properties\<close>

subsection \<open>Viewport\<close>

text \<open>
  C1. Whenever there is a local player, the viewport origin computed by
  \<open>updateViewport\<close> satisfies \<open>0 \<le> viewportX \<le> worldWidth - canvasWidth\<close> if the canvas is
  no wider than the world, and is exactly \<open>0\<close> if the canvas is wider than the world;
  the same holds for the vertical axis.
\<close>

theorem updateViewport_clamped:
  assumes "myPlayer s = Some p"
  shows "(real (canvasWidth s) \<le> worldWidth s \<longrightarrow>
            0 \<le> viewportX (updateViewport s) \<and>
            viewportX (updateViewport s) \<le> worldWidth s - real (canvasWidth s))
       \<and> (real (canvasHeight s) \<le> worldHeight s \<longrightarrow>
            0 \<le> viewportY (updateViewport s) \<and>
            viewportY (updateViewport s) \<le> worldHeight s - real (canvasHeight s))
       \<and> (worldWidth s < real (canvasWidth s) \<longrightarrow> viewportX (updateViewport s) = 0)
       \<and> (worldHeight s < real (canvasHeight s) \<longrightarrow> viewportY (updateViewport s) = 0)"
  using assms by (simp add: updateViewport_def Let_def)

text \<open>
  Three instances: the local player near the world's corner (the origin is clamped to
  \<open>(0, 0)\<close>), the local player in the interior (the origin is \<open>(500, 600)\<close>), and a canvas
  of 3000 by 2500, larger than the world (the origin is pinned to \<open>(0, 0)\<close>).
\<close>

theorem updateViewport_clamped_witness:
  "myPlayer joined = Some alice \<and> real (canvasWidth joined) \<le> worldWidth joined \<and>
   real (canvasHeight joined) \<le> worldHeight joined \<and>
   viewportX (updateViewport joined) = 0 \<and> viewportY (updateViewport joined) = 0 \<and>
   myPlayer (joined\<lparr>myPlayer := Some bob\<rparr>) = Some bob \<and>
   viewportX (updateViewport (joined\<lparr>myPlayer := Some bob\<rparr>)) = 500 \<and>
   viewportY (updateViewport (joined\<lparr>myPlayer := Some bob\<rparr>)) = 600 \<and>
   worldWidth (joined\<lparr>canvasWidth := 3000, canvasHeight := 2500\<rparr>) < real 3000 \<and>
   worldHeight (joined\<lparr>canvasWidth := 3000, canvasHeight := 2500\<rparr>) < real 2500 \<and>
   viewportX (updateViewport (joined\<lparr>canvasWidth := 3000, canvasHeight := 2500\<rparr>)) = 0 \<and>
   viewportY (updateViewport (joined\<lparr>canvasWidth := 3000, canvasHeight := 2500\<rparr>)) = 0"
proof -
  have a: "myPlayer joined = Some alice"
    by (simp add: joined_def)
  have b: "myPlayer (joined\<lparr>canvasWidth := 3000, canvasHeight := 2500\<rparr>) = Some alice"
    by (simp add: joined_def)
  have c: "myPlayer (joined\<lparr>myPlayer := Some bob\<rparr>) = Some bob"
    by simp
  have v: "viewportX (updateViewport (joined\<lparr>myPlayer := Some bob\<rparr>)) = 500"
    "viewportY (updateViewport (joined\<lparr>myPlayer := Some bob\<rparr>)) = 600"
    "viewportX (updateViewport joined) = 0" "viewportY (updateViewport joined) = 0"
    by (simp_all add: joined_def constructor_def bob_def alice_def updateViewport_def)
  from updateViewport_clamped [OF a] updateViewport_clamped [OF b] updateViewport_clamped [OF c] v
  show ?thesis
    by (simp add: joined_def constructor_def)
qed

text \<open>
  C10. When there is a local player and the world's sizes are not negative, the world
  draw pass of \<open>drawWorld\<close> clears the canvas and then draws the world image from a
  source rectangle \<open>[startX, endX] \<times> [startY, endY]\<close> that lies within
  \<open>[0, worldWidth] \<times> [0, worldHeight]\<close> and has \<open>startX \<le> endX\<close> and \<open>startY \<le> endY\<close>, for
  every canvas size.
\<close>

theorem drawWorld_source_in_world:
  assumes "worldImage s = Some img" and "myPlayer s = Some p"
    and "0 \<le> worldWidth s" and "0 \<le> worldHeight s"
  shows "\<exists>startX startY endX endY rest.
           ctx (drawWorld s) =
             ctx s @ ClearRect 0 0 (real (canvasWidth s)) (real (canvasHeight s))
                   # DrawImage9 img startX startY (endX - startX) (endY - startY)
                       0 0 (endX - startX) (endY - startY) # rest
         \<and> 0 \<le> startX \<and> startX \<le> endX \<and> endX \<le> worldWidth s
         \<and> 0 \<le> startY \<and> startY \<le> endY \<and> endY \<le> worldHeight s"
proof -
  let ?vx = "max 0 (min (player_x p - real (canvasWidth s) / 2) (worldWidth s - real (canvasWidth s)))"
  let ?vy = "max 0 (min (player_y p - real (canvasHeight s) / 2) (worldHeight s - real (canvasHeight s)))"
  have cw: "0 \<le> real (canvasWidth s)" and ch: "0 \<le> real (canvasHeight s)"
    by simp_all
  have r: "sourceRect (updateViewport s) =
             (max 0 ?vx, max 0 ?vy,
              min (worldWidth s) (?vx + real (canvasWidth s)),
              min (worldHeight s) (?vy + real (canvasHeight s)))"
    using assms(2) by (simp add: sourceRect_def updateViewport_def Let_def)
  note bnd_x = clamp_source [OF assms(3) cw, of "player_x p - real (canvasWidth s) / 2"]
  note bnd_y = clamp_source [OF assms(4) ch, of "player_y p - real (canvasHeight s) / 2"]
  from drawWorld_calls [OF assms(1) r] bnd_x bnd_y show ?thesis
    by blast
qed

theorem drawWorld_source_in_world_witness:
  "worldImage joined = Some ''world.jpg'' \<and> myPlayer joined = Some alice \<and>
   0 \<le> worldWidth joined \<and> 0 \<le> worldHeight joined \<and>
   (\<exists>startX startY endX endY rest.
      ctx (drawWorld joined) =
        ctx joined @ ClearRect 0 0 (real (canvasWidth joined)) (real (canvasHeight joined))
          # DrawImage9 ''world.jpg'' startX startY (endX - startX) (endY - startY)
              0 0 (endX - startX) (endY - startY) # rest
      \<and> 0 \<le> startX \<and> startX \<le> endX \<and> endX \<le> worldWidth joined
      \<and> 0 \<le> startY \<and> startY \<le> endY \<and> endY \<le> worldHeight joined)"
proof -
  have h: "worldImage joined = Some ''world.jpg''" "myPlayer joined = Some alice"
    "0 \<le> worldWidth joined" "0 \<le> worldHeight joined"
    by (simp_all add: joined_def constructor_def)
  from h drawWorld_source_in_world [OF h] show ?thesis
    by blast
qed

subsection \<open>Avatar pass\<close>

text \<open>
  C3 (as amended). For a player that is not culled, whose avatar is known and has a
  frame sequence for the facing direction (\<open>south\<close> when none is given): if
  \<open>animationFrame\<close> is an index of that sequence and the image reference there is
  not empty, the frame drawn is that one, which is the frame at index
  \<open>animationFrame\<close> modulo the sequence length; if \<open>animationFrame\<close> is out of range,
  no error arises and the avatar is not drawn.
\<close>

theorem drawAvatar_frame_in_range:
  assumes "avatar p \<noteq> []" and "map_get (avatars s) (avatar p) = Some a"
    and "\<not> culled s p"
    and "map_get (frames a) (or_string (facing p) ''south'') = Some fs"
  shows "(0 \<le> animationFrame p \<and> animationFrame p < int (length fs) \<and>
          fs ! nat (animationFrame p) \<noteq> [] \<longrightarrow>
            drawAvatar s p =
              DrawImage5 (fs ! nat (animationFrame p mod int (length fs)))
                (fl64 (fl64 (player_x p - viewportX s) - fl64 (avatarSize s / 2)))
                (fl64 (fl64 (player_y p - viewportY s) - fl64 (avatarSize s / 2)))
                (avatarSize s) (avatarSize s)
              # drawUsernameLabel s (username p)
                  (fl64 (player_x p - viewportX s)) (fl64 (player_y p - viewportY s)))
       \<and> (\<not> (0 \<le> animationFrame p \<and> animationFrame p < int (length fs)) \<longrightarrow>
            drawAvatar s p = [])"
  using assms
  by (auto simp: drawAvatar_def Let_def or_number_def array_index_def)

theorem drawAvatar_frame_in_range_witness:
  "avatar alice \<noteq> [] \<and> map_get (avatars joined) (avatar alice) = Some knight \<and>
   \<not> culled joined alice \<and>
   map_get (frames knight) (or_string (facing alice) ''south'') = Some [''s0.png'', ''s1.png''] \<and>
   0 \<le> animationFrame alice \<and> animationFrame alice < int (length [''s0.png'', ''s1.png'']) \<and>
   drawAvatar joined alice =
     [DrawImage5 ''s1.png'' 84 84 32 32, StrokeText ''alice'' 100 79, FillText ''alice'' 100 79] \<and>
   drawAvatar joined (alice\<lparr>animationFrame := 5\<rparr>) = []"
proof -
  have h: "avatar alice \<noteq> []" "map_get (avatars joined) (avatar alice) = Some knight"
    "\<not> culled joined alice"
    "map_get (frames knight) (or_string (facing alice) ''south'') = Some [''s0.png'', ''s1.png'']"
    by (simp_all add: joined_def constructor_def alice_def knight_def culled_def or_string_def
        fl64_numeral)
  have h5: "avatar (alice\<lparr>animationFrame := 5\<rparr>) \<noteq> []"
    "map_get (avatars joined) (avatar (alice\<lparr>animationFrame := 5\<rparr>)) = Some knight"
    "\<not> culled joined (alice\<lparr>animationFrame := 5\<rparr>)"
    "map_get (frames knight) (or_string (facing (alice\<lparr>animationFrame := 5\<rparr>)) ''south'')
       = Some [''s0.png'', ''s1.png'']"
    by (simp_all add: joined_def constructor_def alice_def knight_def culled_def or_string_def
        fl64_numeral)
  from drawAvatar_frame_in_range [OF h] drawAvatar_frame_in_range [OF h5] h
  show ?thesis
    by (simp add: joined_def constructor_def alice_def drawUsernameLabel_def fl64_numeral)
qed

text \<open>
  The claim as first stated asks for the frame at index \<open>animationFrame\<close> modulo the
  sequence length whenever the sequence is not empty. With two frames for \<open>south\<close> and
  \<open>animationFrame = 2\<close> that would be the frame \<open>s0.png\<close>; \<open>drawAvatar\<close> draws nothing.
\<close>

theorem drawAvatar_frame_modulo_counterexample:
  "avatar (alice\<lparr>animationFrame := 2\<rparr>) = ''knight'' \<and>
   map_get (avatars joined) ''knight'' = Some knight \<and>
   map_get (frames knight) (or_string (facing (alice\<lparr>animationFrame := 2\<rparr>)) ''south'')
     = Some [''s0.png'', ''s1.png''] \<and>
   \<not> culled joined (alice\<lparr>animationFrame := 2\<rparr>) \<and>
   [''s0.png'', ''s1.png''] ! nat (animationFrame (alice\<lparr>animationFrame := 2\<rparr>) mod 2) = ''s0.png'' \<and>
   drawAvatar joined (alice\<lparr>animationFrame := 2\<rparr>) = []"
  by (simp add: joined_def constructor_def alice_def knight_def culled_def or_string_def
      or_number_def array_index_def drawAvatar_def fl64_numeral)

text \<open>
  C4 (as amended). On a canvas whose sizes are below \<open>2 ^ 32\<close> and with the avatar size
  \<open>32\<close> of the constructor, for every player: if the avatar's bounding box at the
  player's screen position, as \<open>drawAvatar\<close> computes it (world position minus viewport
  origin, rounded to binary64), lies fully outside the canvas expanded by half the
  avatar size on every side, \<open>drawAvatar\<close> issues no draw call; if it intersects that
  region and the player can be drawn (its avatar name is not empty and is in the avatar
  store, its facing direction has a frame sequence), \<open>animationFrame\<close> is the index of a
  non-empty image reference of that sequence and the username is not empty,
  \<open>drawAvatar\<close> issues exactly one avatar image draw call followed by one username
  label (its outline and its fill).
\<close>

theorem drawAvatar_culling:
  assumes "avatarSize s = 32" and "canvasWidth s < 2 ^ 32" and "canvasHeight s < 2 ^ 32"
  shows "(bbox_outside_at s (fl64 (player_x p - viewportX s)) (fl64 (player_y p - viewportY s)) \<longrightarrow>
            drawAvatar s p = [])
   \<and> (\<not> bbox_outside_at s (fl64 (player_x p - viewportX s)) (fl64 (player_y p - viewportY s)) \<and>
      avatar p \<noteq> [] \<and> map_get (avatars s) (avatar p) = Some a \<and>
      map_get (frames a) (or_string (facing p) ''south'') = Some fs \<and>
      array_index fs (or_number (animationFrame p) 0) = Some src \<and> src \<noteq> [] \<and>
      username p \<noteq> [] \<longrightarrow>
        drawAvatar s p =
          [DrawImage5 src (fl64 (fl64 (player_x p - viewportX s) - 16))
             (fl64 (fl64 (player_y p - viewportY s) - 16)) 32 32,
           StrokeText (username p) (fl64 (player_x p - viewportX s))
             (fl64 (fl64 (fl64 (player_y p - viewportY s) - 16) - 5)),
           FillText (username p) (fl64 (player_x p - viewportX s))
             (fl64 (fl64 (fl64 (player_y p - viewportY s) - 16) - 5))])"
proof -
  note c = culled_bbox [OF assms, of p]
  have "culled s p \<longrightarrow> drawAvatar s p = []"
    by (simp add: drawAvatar_def Let_def split: option.split)
  moreover have "\<not> culled s p \<and>
      avatar p \<noteq> [] \<and> map_get (avatars s) (avatar p) = Some a \<and>
      map_get (frames a) (or_string (facing p) ''south'') = Some fs \<and>
      array_index fs (or_number (animationFrame p) 0) = Some src \<and> src \<noteq> [] \<and>
      username p \<noteq> [] \<longrightarrow>
        drawAvatar s p =
          [DrawImage5 src (fl64 (fl64 (player_x p - viewportX s) - 16))
             (fl64 (fl64 (player_y p - viewportY s) - 16)) 32 32,
           StrokeText (username p) (fl64 (player_x p - viewportX s))
             (fl64 (fl64 (fl64 (player_y p - viewportY s) - 16) - 5)),
           FillText (username p) (fl64 (player_x p - viewportX s))
             (fl64 (fl64 (fl64 (player_y p - viewportY s) - 16) - 5))]"
    using assms(1) by (simp add: drawAvatar_def Let_def drawUsernameLabel_def fl64_numeral)
  ultimately show ?thesis
    unfolding c by blast
qed


theorem drawAvatar_culling_witness:
  "avatarSize joined = 32 \<and> canvasWidth joined < 2 ^ 32 \<and> canvasHeight joined < 2 ^ 32 \<and>
   bbox_outside_at joined (fl64 (player_x bob - viewportX joined))
     (fl64 (player_y bob - viewportY joined)) \<and>
   drawAvatar joined bob = [] \<and>
   \<not> bbox_outside_at joined (fl64 (player_x alice - viewportX joined))
     (fl64 (player_y alice - viewportY joined)) \<and>
   avatar alice \<noteq> [] \<and>
   map_get (avatars joined) (avatar alice) = Some knight \<and>
   map_get (frames knight) (or_string (facing alice) ''south'') = Some [''s0.png'', ''s1.png''] \<and>
   array_index [''s0.png'', ''s1.png''] (or_number (animationFrame alice) 0) = Some ''s1.png'' \<and>
   username alice \<noteq> [] \<and>
   drawAvatar joined alice =
     [DrawImage5 ''s1.png'' 84 84 32 32, StrokeText ''alice'' 100 79, FillText ''alice'' 100 79]"
proof -
  have g: "avatarSize joined = 32" "canvasWidth joined < 2 ^ 32" "canvasHeight joined < 2 ^ 32"
    by (simp_all add: joined_def constructor_def)
  have out: "bbox_outside_at joined (fl64 (player_x bob - viewportX joined))
     (fl64 (player_y bob - viewportY joined))"
    by (simp add: joined_def constructor_def bob_def bbox_outside_at_def fl64_numeral)
  have pos: "fl64 (player_x alice - viewportX joined) = 100"
    "fl64 (player_y alice - viewportY joined) = 100"
    by (simp_all add: joined_def constructor_def alice_def fl64_numeral)
  have un: "username alice = ''alice''"
    by (simp add: alice_def)
  have h: "\<not> bbox_outside_at joined (fl64 (player_x alice - viewportX joined))
     (fl64 (player_y alice - viewportY joined))"
    "avatar alice \<noteq> []"
    "map_get (avatars joined) (avatar alice) = Some knight"
    "map_get (frames knight) (or_string (facing alice) ''south'') = Some [''s0.png'', ''s1.png'']"
    "array_index [''s0.png'', ''s1.png''] (or_number (animationFrame alice) 0) = Some ''s1.png''"
    "username alice \<noteq> []"
    by (simp_all add: joined_def constructor_def alice_def knight_def bbox_outside_at_def
        or_string_def or_number_def array_index_def fl64_numeral)
  from drawAvatar_culling [OF g, of bob] out have 1: "drawAvatar joined bob = []"
    by blast
  from drawAvatar_culling [OF g, of alice knight "[''s0.png'', ''s1.png'']" "''s1.png''"] h
  have "drawAvatar joined alice =
          [DrawImage5 ''s1.png'' (fl64 (fl64 (player_x alice - viewportX joined) - 16))
             (fl64 (fl64 (player_y alice - viewportY joined) - 16)) 32 32,
           StrokeText (username alice) (fl64 (player_x alice - viewportX joined))
             (fl64 (fl64 (fl64 (player_y alice - viewportY joined) - 16) - 5)),
           FillText (username alice) (fl64 (player_x alice - viewportX joined))
             (fl64 (fl64 (fl64 (player_y alice - viewportY joined) - 16) - 5))]"
    by simp
  then have 2: "drawAvatar joined alice =
     [DrawImage5 ''s1.png'' 84 84 32 32, StrokeText ''alice'' 100 79, FillText ''alice'' 100 79]"
    by (simp add: pos un fl64_numeral)
  from g out 1 h 2 show ?thesis
    by simp
qed

text \<open>
  The claim as first stated fails in three ways. The player \<open>carol\<close> is on screen, her
  avatar is known and has a frame for her facing direction, but \<open>animationFrame = 1\<close> is
  past that one frame: no draw call is issued. A player on screen without a username
  gets the avatar image and no label. And in the session \<open>halfway\<close> the bounding box of
  \<open>dora\<close> at the exact screen position \<open>832 + 2 ^ (- 44)\<close> lies outside the expanded
  canvas, whose right edge for the centre is \<open>832\<close>, while the computed screen position
  rounds to \<open>832\<close> and she is drawn.
\<close>

theorem drawAvatar_culling_counterexample:
  "\<not> spec_bbox_outside joined carol \<and>
   map_get (avatars joined) (avatar carol) = Some knight \<and>
   map_get (frames knight) (or_string (facing carol) ''south'') = Some [''n0.png''] \<and>
   drawAvatar joined carol = [] \<and>
   \<not> spec_bbox_outside joined (alice\<lparr>username := []\<rparr>) \<and>
   drawAvatar joined (alice\<lparr>username := []\<rparr>) = [DrawImage5 ''s1.png'' 84 84 32 32] \<and>
   viewportX halfway = 1 / 2 ^ 44 \<and> viewportY halfway = 0 \<and>
   spec_bbox_outside halfway dora \<and>
   drawAvatar halfway dora =
     [DrawImage5 ''s0.png'' 816 284 32 32, StrokeText ''dora'' 832 279, FillText ''dora'' 832 279]"
proof -
  have carol: "\<not> spec_bbox_outside joined carol"
    "map_get (avatars joined) (avatar carol) = Some knight"
    "map_get (frames knight) (or_string (facing carol) ''south'') = Some [''n0.png'']"
    "drawAvatar joined carol = []"
    by (simp_all add: joined_def constructor_def carol_def knight_def spec_bbox_outside_def
        bbox_outside_at_def drawAvatar_def culled_def or_string_def or_number_def
        array_index_def fl64_numeral)
  have nameless: "\<not> spec_bbox_outside joined (alice\<lparr>username := []\<rparr>)"
    "drawAvatar joined (alice\<lparr>username := []\<rparr>) = [DrawImage5 ''s1.png'' 84 84 32 32]"
    by (simp_all add: joined_def constructor_def alice_def knight_def spec_bbox_outside_def
        bbox_outside_at_def drawAvatar_def culled_def or_string_def or_number_def
        array_index_def drawUsernameLabel_def fl64_numeral)
  have view: "viewportX halfway = 1 / 2 ^ 44" "viewportY halfway = 0"
    by (simp_all add: halfway_def updateViewport_def joined_def constructor_def erin_def)
  have fields: "avatars halfway = [(''knight'', knight)]" "avatarSize halfway = 32"
    "canvasWidth halfway = 800" "canvasHeight halfway = 600"
    by (simp_all add: halfway_def updateViewport_def joined_def constructor_def)
  have dora: "avatar dora = ''knight''" "facing dora = ''south''" "animationFrame dora = 0"
    "username dora = ''dora''" "player_x dora = 832 + 1 / 2 ^ 43" "player_y dora = 300"
    by (simp_all add: dora_def)
  have sx: "fl64 (player_x dora - viewportX halfway) = 832"
    unfolding dora view by (rule fl64_halfway)
  have sy: "fl64 (player_y dora - viewportY halfway) = 300"
    unfolding dora view by (simp add: fl64_numeral)
  have outside: "spec_bbox_outside halfway dora"
    by (simp add: spec_bbox_outside_def bbox_outside_at_def dora view fields)
  have visible: "\<not> culled halfway dora"
    by (simp add: culled_def sx sy fields fl64_numeral)
  have drawn: "drawAvatar halfway dora =
     [DrawImage5 ''s0.png'' 816 284 32 32, StrokeText ''dora'' 832 279, FillText ''dora'' 832 279]"
    by (simp add: drawAvatar_def visible sx sy fields dora(1-4) knight_def or_string_def
        or_number_def array_index_def drawUsernameLabel_def fl64_numeral)
  from carol nameless view outside drawn show ?thesis
    by simp
qed

subsection \<open>Inbound messages\<close>

text \<open>
  C2. Processing a \<open>player_joined\<close> or a \<open>player_left\<close> message should request a redraw
  after the state transition. Evaluated on the joined session, both handlers leave the
  log of draw calls empty, whereas the handler of \<open>players_moved\<close> clears the canvas and
  runs the world pass and the avatar pass.
\<close>

theorem playerJoined_playerLeft_no_redraw:
  "ctx joined = [] \<and>
   ctx (handleServerMessage joined (PlayerJoined bob knight)) = [] \<and>
   ctx (handleServerMessage joined (PlayerLeft ''A'')) = [] \<and>
   ctx (handleServerMessage joined (PlayersMoved [(''B'', bob)])) =
     [ClearRect 0 0 800 600, DrawImage9 ''world.jpg'' 0 0 800 600 0 0 800 600,
      DrawImage5 ''s1.png'' 84 84 32 32, StrokeText ''alice'' 100 79, FillText ''alice'' 100 79]"
proof -
  define t where "t = joined\<lparr> players := [(''A'', alice), (''B'', bob)] \<rparr>"
  have quiet: "ctx joined = []"
    "ctx (handleServerMessage joined (PlayerJoined bob knight)) = []"
    "ctx (handleServerMessage joined (PlayerLeft ''A'')) = []"
    by (simp_all add: joined_def constructor_def handlePlayerJoined_def handlePlayerLeft_def)
  have moved: "handleServerMessage joined (PlayersMoved [(''B'', bob)]) = drawWorld t"
    by (simp add: t_def handlePlayersMoved_def joined_def constructor_def)
  have img: "worldImage t = Some ''world.jpg''"
    and size: "canvasWidth t = 800" "canvasHeight t = 600"
    and ps: "players t = [(''A'', alice), (''B'', bob)]" and c: "ctx t = []"
    by (simp_all add: t_def joined_def constructor_def)
  have rect: "sourceRect (updateViewport t) = (0, 0, 800, 600)"
    by (simp add: t_def joined_def constructor_def alice_def updateViewport_def sourceRect_def)
  have a: "drawAvatar (updateViewport t) alice =
     [DrawImage5 ''s1.png'' 84 84 32 32, StrokeText ''alice'' 100 79, FillText ''alice'' 100 79]"
    by (simp add: t_def joined_def constructor_def alice_def knight_def updateViewport_def
        drawAvatar_def culled_def or_string_def or_number_def array_index_def
        drawUsernameLabel_def fl64_numeral)
  have b: "drawAvatar (updateViewport t) bob = []"
    by (simp add: t_def joined_def constructor_def alice_def bob_def knight_def updateViewport_def
        drawAvatar_def culled_def fl64_numeral)
  have "ctx (drawWorld t) =
     [ClearRect 0 0 800 600, DrawImage9 ''world.jpg'' 0 0 800 600 0 0 800 600,
      DrawImage5 ''s1.png'' 84 84 32 32, StrokeText ''alice'' 100 79, FillText ''alice'' 100 79]"
    unfolding drawWorld_calls [OF img rect] by (simp add: size ps c a b)
  with quiet moved show ?thesis
    by simp
qed

text \<open>
  C5. Processing a \<open>players_moved\<close> message always yields a state (the handler has no
  failing branch), and in that state the player store maps every id of the message to
  the record the message carries for it, whether or not the id was in the store before.
\<close>

theorem playersMoved_inserts:
  assumes "(pid, pd) \<in> set entries" and "distinct (map fst entries)"
  shows "map_get (players (handleServerMessage s (PlayersMoved entries))) pid = Some pd"
  using assms by (simp add: handlePlayersMoved_def drawWorld_frame setPlayers_present)

theorem playersMoved_inserts_witness:
  "(''B'', bob) \<in> set [(''B'', bob)] \<and> distinct (map fst [(''B'', bob)]) \<and>
   map_get (players joined) ''B'' = None \<and>
   map_get (players (handleServerMessage joined (PlayersMoved [(''B'', bob)]))) ''B'' = Some bob"
  using playersMoved_inserts [of "''B''" bob "[(''B'', bob)]" joined]
  by (simp add: joined_def)

text \<open>
  C6. A player record stored under the local player's id should also become the cached
  local player, on every path that stores records. Evaluated on the joined session
  (local id \<open>A\<close>): a \<open>player_joined\<close> message carrying a moved record for \<open>A\<close> replaces
  the record in the player store and leaves \<open>myPlayer\<close> at the old record, whereas a
  \<open>players_moved\<close> message carrying the same record updates \<open>myPlayer\<close>.
\<close>

theorem playerJoined_stale_myPlayer:
  "myPlayerId joined = Some (player_id (alice\<lparr>player_x := 500\<rparr>)) \<and>
   map_get (players (handleServerMessage joined (PlayerJoined (alice\<lparr>player_x := 500\<rparr>) knight))) ''A''
     = Some (alice\<lparr>player_x := 500\<rparr>) \<and>
   myPlayer (handleServerMessage joined (PlayerJoined (alice\<lparr>player_x := 500\<rparr>) knight)) = Some alice \<and>
   alice \<noteq> alice\<lparr>player_x := 500\<rparr> \<and>
   myPlayer (handleServerMessage joined (PlayersMoved [(''A'', alice\<lparr>player_x := 500\<rparr>)]))
     = Some (alice\<lparr>player_x := 500\<rparr>)"
  by (simp add: joined_def constructor_def handlePlayerJoined_def handlePlayersMoved_def
      drawWorld_frame alice_def Let_def)

text \<open>
  C8. Applying the same \<open>player_joined\<close> message twice yields the same state, and so the
  same player store and avatar store, as applying it once.
\<close>

theorem playerJoined_idempotent:
  "handleServerMessage (handleServerMessage s (PlayerJoined p a)) (PlayerJoined p a) =
   handleServerMessage s (PlayerJoined p a)"
  by (simp add: handlePlayerJoined_def map_set_idem)

subsection \<open>Keyboard and connection\<close>

text \<open>
  C7. A key event sends a \<open>stop\<close> only if no movement key is held once it has been
  handled. In particular, from any state, after two different movement keys have been
  pressed and the first released, no \<open>stop\<close> is sent by these events nor by any
  further key events that do not release the second key, which stays held throughout.
\<close>

theorem stop_only_when_none_held:
  assumes "movementKeys k1 = Some d1" and "movementKeys k2 = Some d2" and "k1 \<noteq> k2"
    and "KeyUp k2 \<notin> set es"
  shows "(\<exists>new. ws (keyEvent s e) = ws s @ new \<and>
            (Stop \<in> set new \<longrightarrow> keysPressed (keyEvent s e) = {}))
       \<and> (\<exists>new. ws (keyEvents s (KeyDown k1 # KeyDown k2 # KeyUp k1 # es)) = ws s @ new \<and>
            Stop \<notin> set new \<and>
            k2 \<in> keysPressed (keyEvents s (KeyDown k1 # KeyDown k2 # KeyUp k1 # es)))"
proof -
  let ?s1 = "keyEvent s (KeyDown k1)"
  let ?s2 = "keyEvent ?s1 (KeyDown k2)"
  have held: "k2 \<in> keysPressed ?s2"
    using assms(2) by (simp add: keydown_held)
  have one: "\<exists>new. ws ?s2 = ws s @ new \<and> Stop \<notin> set new"
    by (auto simp: keydown_def startMovement_def split: option.splits)
  from assms(3,4) have "KeyUp k2 \<notin> set (KeyUp k1 # es)"
    by simp
  from keyEvents_held [OF held this] one
  have "\<exists>new. ws (keyEvents ?s2 (KeyUp k1 # es)) = ws s @ new \<and> Stop \<notin> set new \<and>
          k2 \<in> keysPressed (keyEvents ?s2 (KeyUp k1 # es))"
    by auto
  then show ?thesis
    using keyEvent_sent [of s e] by simp
qed

text \<open>
  On the joined session: \<open>ArrowUp\<close> and \<open>ArrowLeft\<close> are pressed, \<open>ArrowUp\<close> is released,
  \<open>ArrowDown\<close> is pressed and released; only \<open>move\<close> messages have been sent. Releasing
  \<open>ArrowLeft\<close> then sends the \<open>stop\<close>.
\<close>

theorem stop_only_when_none_held_witness:
  "movementKeys ''ArrowUp'' = Some ''up'' \<and> movementKeys ''ArrowLeft'' = Some ''left'' \<and>
   ''ArrowUp'' \<noteq> ''ArrowLeft'' \<and>
   KeyUp ''ArrowLeft'' \<notin> set [KeyDown ''ArrowDown'', KeyUp ''ArrowDown''] \<and>
   ws (keyEvents joined [KeyDown ''ArrowUp'', KeyDown ''ArrowLeft'', KeyUp ''ArrowUp'',
         KeyDown ''ArrowDown'', KeyUp ''ArrowDown''])
     = [Move ''up'', Move ''left'', Move ''down''] \<and>
   ''ArrowLeft'' \<in> keysPressed (keyEvents joined [KeyDown ''ArrowUp'', KeyDown ''ArrowLeft'',
         KeyUp ''ArrowUp'', KeyDown ''ArrowDown'', KeyUp ''ArrowDown'']) \<and>
   ws (keyEvents joined [KeyDown ''ArrowUp'', KeyDown ''ArrowLeft'', KeyUp ''ArrowUp'',
         KeyDown ''ArrowDown'', KeyUp ''ArrowDown'', KeyUp ''ArrowLeft''])
     = [Move ''up'', Move ''left'', Move ''down'', Stop]"
proof -
  have h: "movementKeys ''ArrowUp'' = Some ''up''" "movementKeys ''ArrowLeft'' = Some ''left''"
    "''ArrowUp'' \<noteq> ''ArrowLeft''"
    "KeyUp ''ArrowLeft'' \<notin> set [KeyDown ''ArrowDown'', KeyUp ''ArrowDown'']"
    by (simp_all add: movementKeys_def)
  have run: "ws (keyEvents joined [KeyDown ''ArrowUp'', KeyDown ''ArrowLeft'', KeyUp ''ArrowUp'',
         KeyDown ''ArrowDown'', KeyUp ''ArrowDown''])
       = [Move ''up'', Move ''left'', Move ''down'']"
     "ws (keyEvents joined [KeyDown ''ArrowUp'', KeyDown ''ArrowLeft'', KeyUp ''ArrowUp'',
         KeyDown ''ArrowDown'', KeyUp ''ArrowDown'', KeyUp ''ArrowLeft''])
       = [Move ''up'', Move ''left'', Move ''down'', Stop]"
    by (simp_all add: joined_def constructor_def keyup_def keydown_def movementKeys_def
        startMovement_def stopMovement_def insert_Diff_if)
  from stop_only_when_none_held [OF h, of joined "KeyUp ''ArrowUp''"]
  have held: "''ArrowLeft'' \<in> keysPressed (keyEvents joined [KeyDown ''ArrowUp'',
         KeyDown ''ArrowLeft'', KeyUp ''ArrowUp'', KeyDown ''ArrowDown'', KeyUp ''ArrowDown''])"
    by blast
  from h run held show ?thesis
    by blast
qed

text \<open>
  C9 (as amended). On transport close the session becomes disconnected; on transport
  error the state does not change. In both cases the local player id, the cached local
  player, the player store and the avatar store are as before.
\<close>

theorem close_and_error:
  "connected (onclose s) = False \<and> myPlayerId (onclose s) = myPlayerId s \<and>
   myPlayer (onclose s) = myPlayer s \<and> players (onclose s) = players s \<and>
   avatars (onclose s) = avatars s \<and> onerror s = s"
  by (simp add: onclose_def onerror_def)

text \<open>
  The claim as first stated has the local player id cleared and the session
  disconnected on close and on error. On the joined session the id is still \<open>A\<close> after
  either event, and the session is still connected after an error.
\<close>

theorem close_keeps_identity_counterexample:
  "myPlayerId joined = Some ''A'' \<and> myPlayerId (onclose joined) = Some ''A'' \<and>
   myPlayerId (onerror joined) = Some ''A'' \<and> connected (onerror joined)"
  by (simp add: joined_def onclose_def onerror_def)

end
